theory Spec2Isabelle
  imports Complex_Main "HOL-Library.Finite_Map"
begin

section \<open>clips: a name-addressed clipboard store with lazy expiry\<close>

text \<open>
  The development embeds \<^verbatim>\<open>clips.py\<close>. The program keeps a module-level
  dictionary \<^verbatim>\<open>clipboards\<close> from names to \<^verbatim>\<open>Clipboard\<close> objects; its request
  handlers look an object up (creating it on first use) and read or overwrite its text,
  clearing the text lazily once \<^verbatim>\<open>TIMEOUT_SECS\<close> have passed since the last access.

  Modelling decisions:
  \<^item> Python objects are mutable and held by reference, so the model has an explicit
    object store: \<open>heap\<close> is the list of all \<^verbatim>\<open>Clipboard\<close> objects ever allocated, an
    address is an index into it, and the dictionary maps a name to an address.
    Two lookups observe the same object exactly when they yield the same address.
  \<^item> \<^verbatim>\<open>time.time()\<close> is an effect. The world carries the sequence \<open>clock\<close> of
    values the system clock returns, and \<open>ticks\<close>, the number of readings taken so far;
    nothing is assumed about the sequence (it need not be monotone). Time stamps are
    Python floats; they are idealised as real numbers.
  \<^item> A Python \<^verbatim>\<open>str\<close> is represented by the list of the bytes of its UTF-8 encoding,
    a \<^verbatim>\<open>bytes\<close> value by the list of its bytes.
  \<^item> \<^verbatim>\<open>str.lower\<close>, \<^verbatim>\<open>str.capitalize\<close>, \<^verbatim>\<open>bytes.decode\<close> and
    \<^verbatim>\<open>urllib.parse.urljoin\<close> belong to the Python runtime, whose tables and parsers
    are not part of the program. The handlers take them as the parameter \<open>py\<close>, so a
    theorem stated for \<open>py\<close> holds for whatever these functions are; \<open>cpython\<close>
    below gives them on ASCII text, for concrete runs and for the generated names.
  \<^item> An exception is a value of type \<open>error\<close>; a handler returns
    \<open>error + response\<close> together with the world it leaves behind.
\<close>

subsection \<open>Data\<close>

type_synonym str = string
type_synonym bytes = string
type_synonym addr = nat

text \<open>
  \<^verbatim>\<open>class Clipboard\<close> with its attributes \<^verbatim>\<open>name\<close>, \<^verbatim>\<open>text\<close>, \<^verbatim>\<open>timestamp\<close>
  (prefixed here: \<^verbatim>\<open>text\<close> is a keyword of the theory language).
\<close>

record Clipboard =
  c_name :: str
  c_text :: str
  c_timestamp :: real

record world =
  clipboards :: "(str, addr) fmap"
  heap :: "Clipboard list"
  clock :: "nat \<Rightarrow> real"
  ticks :: nat

datatype error =
    HTTPError nat
  | HTTPRedirect str
  | KeyError
  | UnicodeDecodeError
  | ValueError

text \<open>
  What a handler returns: one of the two HTML pages (constant literals of the source,
  kept abstract), the text of a clipboard served with \<^verbatim>\<open>Content-Type: text/plain\<close>,
  or \<^verbatim>\<open>None\<close>.
\<close>

datatype response = IndexPage | ClipPage | PlainText str | NoContent

text \<open>
  The parts of \<^verbatim>\<open>cherrypy.request\<close> the handlers read. A header that the client did
  not send is \<open>None\<close>; subscripting the header map with it raises \<^verbatim>\<open>KeyError\<close>.
  \<open>r_url\<close> is the URL of the request, what \<^verbatim>\<open>cherrypy.url()\<close> returns.
\<close>

record request =
  r_method :: str
  r_content_type :: "str option"
  r_body :: bytes
  r_url :: str

record pylib =
  str_lower :: "str \<Rightarrow> str"
  str_capitalize :: "str \<Rightarrow> str"
  bytes_decode :: "bytes \<Rightarrow> str option"
  urljoin :: "str \<Rightarrow> str \<Rightarrow> str"

definition TIMEOUT_SECS :: real where
  "TIMEOUT_SECS = 900"

definition NUM_RANDOM_WORDS :: nat where
  "NUM_RANDOM_WORDS = 3"

subsection \<open>The clock and the object store\<close>

definition time_time :: "world \<Rightarrow> real \<times> world" where
  "time_time w = (clock w (ticks w), w\<lparr>ticks := Suc (ticks w)\<rparr>)"

text \<open>Attribute assignment \<^verbatim>\<open>self.text = v\<close> and \<^verbatim>\<open>self.timestamp = t\<close>.\<close>

definition assign_text :: "addr \<Rightarrow> str \<Rightarrow> world \<Rightarrow> world" where
  "assign_text self v w = w\<lparr>heap := (heap w)[self := (heap w ! self)\<lparr>c_text := v\<rparr>]\<rparr>"

definition assign_timestamp :: "addr \<Rightarrow> real \<Rightarrow> world \<Rightarrow> world" where
  "assign_timestamp self t w =
     w\<lparr>heap := (heap w)[self := (heap w ! self)\<lparr>c_timestamp := t\<rparr>]\<rparr>"

subsection \<open>class Clipboard\<close>

text \<open>\<^verbatim>\<open>Clipboard(name)\<close>: allocates the object and returns its address.\<close>

definition Clipboard_init :: "str \<Rightarrow> world \<Rightarrow> addr \<times> world" where
  "Clipboard_init nm w =
     (let (now, w1) = time_time w;
          self = length (heap w1)
      in (self, w1\<lparr>heap := heap w1 @ [\<lparr>c_name = nm, c_text = [], c_timestamp = now\<rparr>]\<rparr>))"

definition Clipboard_get :: "addr \<Rightarrow> world \<Rightarrow> str \<times> world" where
  "Clipboard_get self w =
     (let (now1, w1) = time_time w;
          w2 = (if c_timestamp (heap w1 ! self) + TIMEOUT_SECS \<le> now1
                then assign_text self [] w1 else w1);
          (now2, w3) = time_time w2;
          w4 = assign_timestamp self now2 w3
      in (c_text (heap w4 ! self), w4))"

definition Clipboard_set :: "addr \<Rightarrow> str \<Rightarrow> world \<Rightarrow> world" where
  "Clipboard_set self v w =
     (let w1 = assign_text self v w;
          (now, w2) = time_time w1
      in assign_timestamp self now w2)"

subsection \<open>class ClipsController\<close>

definition get_clipboard :: "str \<Rightarrow> world \<Rightarrow> addr \<times> world" where
  "get_clipboard nm w =
     (case fmlookup (clipboards w) nm of
        Some clipboard \<Rightarrow> (clipboard, w)
      | None \<Rightarrow>
          (let (clipboard, w1) = Clipboard_init nm w
           in (clipboard, w1\<lparr>clipboards := fmupd nm clipboard (clipboards w1)\<rparr>)))"

definition get_text :: "str \<Rightarrow> world \<Rightarrow> (error + response) \<times> world" where
  "get_text nm w =
     (let (clipboard, w1) = get_clipboard nm w;
          (t, w2) = Clipboard_get clipboard w1
      in (Inr (PlainText t), w2))"

definition set_text :: "pylib \<Rightarrow> request \<Rightarrow> str \<Rightarrow> world \<Rightarrow> (error + response) \<times> world" where
  "set_text py req nm w =
     (case r_content_type req of
        None \<Rightarrow> (Inl KeyError, w)
      | Some ct \<Rightarrow>
          if ct \<noteq> ''text/plain'' then (Inl (HTTPError 400), w)
          else (case bytes_decode py (r_body req) of
                  None \<Rightarrow> (Inl UnicodeDecodeError, w)
                | Some t \<Rightarrow>
                    (let (clipboard, w1) = get_clipboard nm w;
                         w2 = Clipboard_set clipboard t w1
                     in (Inr NoContent, w2))))"

definition do_text :: "pylib \<Rightarrow> request \<Rightarrow> str \<Rightarrow> world \<Rightarrow> (error + response) \<times> world" where
  "do_text py req nm w =
     (if r_method req = ''GET'' then get_text nm w
      else if r_method req = ''POST'' then set_text py req nm w
      else (Inl (HTTPError 405), w))"


definition random_sample :: "'a list \<Rightarrow> nat \<Rightarrow> nat list \<Rightarrow> error + 'a list" where
  "random_sample population k picks =
     (if length population < k then Inl ValueError
      else Inr (map (\<lambda>i. population ! i) picks))"



definition do_index :: response where
  "do_index = IndexPage"

definition do_clip :: response where
  "do_clip = ClipPage"

text \<open>
  \<^verbatim>\<open>do_random\<close> always leaves by raising: the redirect, or the sampling error.
  \<^verbatim>\<open>cherrypy.HTTPRedirect(url)\<close> does not keep its argument as it is: the exception
  holds \<^verbatim>\<open>urljoin(cherrypy.url(), url)\<close>, the absolute URL that goes into the
  \<^verbatim>\<open>Location\<close> header, and that is what \<open>HTTPRedirect\<close> carries here.
\<close>

definition do_random :: "pylib \<Rightarrow> str list \<Rightarrow> nat list \<Rightarrow> request \<Rightarrow> error + response" where
  "do_random py wordlist picks req =
     (case random_sample wordlist NUM_RANDOM_WORDS picks of
        Inl e \<Rightarrow> Inl e
      | Inr words \<Rightarrow>
          Inl (HTTPRedirect
                (urljoin py (r_url req) (''/'' @ concat (map (str_capitalize py) words)))))"

text \<open>
  \<^verbatim>\<open>default(*segs)\<close>, the only exposed handler (named \<open>default\<close> in the source, a
  name HOL already uses).
\<close>

definition default_handler ::
  "pylib \<Rightarrow> str list \<Rightarrow> nat list \<Rightarrow> request \<Rightarrow> str list \<Rightarrow> world \<Rightarrow> (error + response) \<times> world"
where
  "default_handler py wordlist picks req segs w =
     (if length segs = 0 then (Inr do_index, w)
      else if length segs = 1 \<and> str_lower py (segs ! 0) = ''random''
        then (do_random py wordlist picks req, w)
      else if length segs = 1 then (Inr do_clip, w)
      else if length segs = 2 \<and> str_lower py (segs ! 1) = ''text''
        then do_text py req (str_lower py (segs ! 0)) w
      else (Inl (HTTPError 404), w))"

subsection \<open>The runtime functions on ASCII text\<close>

definition ascii_lower_char :: "char \<Rightarrow> char" where
  "ascii_lower_char c =
     (let n = (of_char c :: nat) in if 65 \<le> n \<and> n \<le> 90 then char_of (n + 32) else c)"

definition ascii_upper_char :: "char \<Rightarrow> char" where
  "ascii_upper_char c =
     (let n = (of_char c :: nat) in if 97 \<le> n \<and> n \<le> 122 then char_of (n - 32) else c)"

definition ascii_lower :: "str \<Rightarrow> str" where
  "ascii_lower s = map ascii_lower_char s"

definition ascii_capitalize :: "str \<Rightarrow> str" where
  "ascii_capitalize s =
     (case s of [] \<Rightarrow> [] | c # cs \<Rightarrow> ascii_upper_char c # map ascii_lower_char cs)"

text \<open>
  Strict UTF-8: the well-formed byte sequences of the Unicode standard (no overlong
  forms, no surrogates, nothing above U+10FFFF).
\<close>

definition cont :: "nat \<Rightarrow> bool" where
  "cont b = (0x80 \<le> b \<and> b \<le> 0xBF)"

fun utf8_wellformed :: "nat list \<Rightarrow> bool" where
  "utf8_wellformed [] = True"
| "utf8_wellformed [a] = (a < 0x80)"
| "utf8_wellformed [a, b] =
     (if a < 0x80 then utf8_wellformed [b] else 0xC2 \<le> a \<and> a \<le> 0xDF \<and> cont b)"
| "utf8_wellformed [a, b, c] =
     (if a < 0x80 then utf8_wellformed [b, c]
      else if 0xC2 \<le> a \<and> a \<le> 0xDF then cont b \<and> utf8_wellformed [c]
      else if a = 0xE0 then 0xA0 \<le> b \<and> b \<le> 0xBF \<and> cont c
      else if a = 0xED then 0x80 \<le> b \<and> b \<le> 0x9F \<and> cont c
      else 0xE1 \<le> a \<and> a \<le> 0xEF \<and> cont b \<and> cont c)"
| "utf8_wellformed (a # b # c # d # r) =
     (if a < 0x80 then utf8_wellformed (b # c # d # r)
      else if 0xC2 \<le> a \<and> a \<le> 0xDF then cont b \<and> utf8_wellformed (c # d # r)
      else if a = 0xE0 then 0xA0 \<le> b \<and> b \<le> 0xBF \<and> cont c \<and> utf8_wellformed (d # r)
      else if a = 0xED then 0x80 \<le> b \<and> b \<le> 0x9F \<and> cont c \<and> utf8_wellformed (d # r)
      else if 0xE1 \<le> a \<and> a \<le> 0xEF then cont b \<and> cont c \<and> utf8_wellformed (d # r)
      else if a = 0xF0 then 0x90 \<le> b \<and> b \<le> 0xBF \<and> cont c \<and> cont d \<and> utf8_wellformed r
      else if a = 0xF4 then 0x80 \<le> b \<and> b \<le> 0x8F \<and> cont c \<and> cont d \<and> utf8_wellformed r
      else 0xF1 \<le> a \<and> a \<le> 0xF3 \<and> cont b \<and> cont c \<and> cont d \<and> utf8_wellformed r)"

definition utf8_decode :: "bytes \<Rightarrow> str option" where
  "utf8_decode bs = (if utf8_wellformed (map of_char bs) then Some bs else None)"

text \<open>
  \<^verbatim>\<open>urljoin(base, ref)\<close> for a reference that is an absolute path without dot
  segments, query or fragment: the scheme and the host of the base, followed by the
  reference, from which \<^verbatim>\<open>urlsplit\<close> has removed every tab, carriage return and
  newline (it does so in the Python releases since 2021).
\<close>

definition unsafe_url_char :: "char \<Rightarrow> bool" where
  "unsafe_url_char c = (of_char c \<in> {9, 10, 13 :: nat})"

definition strip_unsafe :: "str \<Rightarrow> str" where
  "strip_unsafe s = filter (\<lambda>c. \<not> unsafe_url_char c) s"

definition url_origin :: "str \<Rightarrow> str" where
  "url_origin base =
     takeWhile (\<lambda>c. c \<noteq> CHR '':'') base @ ''://''
       @ takeWhile (\<lambda>c. c \<noteq> CHR ''/'') (drop 3 (dropWhile (\<lambda>c. c \<noteq> CHR '':'') base))"

definition urljoin_path :: "str \<Rightarrow> str \<Rightarrow> str" where
  "urljoin_path base ref = url_origin base @ strip_unsafe ref"

definition cpython :: pylib where
  "cpython = \<lparr>str_lower = ascii_lower, str_capitalize = ascii_capitalize,
              bytes_decode = utf8_decode, urljoin = urljoin_path\<rparr>"




subsection \<open>Well-formed worlds\<close>

text \<open>
  Every name of the dictionary refers to an allocated object, and that object carries
  the name as its \<^verbatim>\<open>name\<close> attribute. The empty dictionary of a fresh process is
  well formed, and every handler keeps the property.
\<close>

definition wf :: "world \<Rightarrow> bool" where
  "wf w = fBall (fmdom (clipboards w))
            (\<lambda>n. case fmlookup (clipboards w) n of
                   None \<Rightarrow> False
                 | Some a \<Rightarrow> a < length (heap w) \<and> c_name (heap w ! a) = n)"

definition boot :: "(nat \<Rightarrow> real) \<Rightarrow> world" where
  "boot ck = \<lparr>clipboards = fmempty, heap = [], clock = ck, ticks = 0\<rparr>"

text \<open>The \<^verbatim>\<open>Clipboard\<close> object a name denotes, if the dictionary has the name.\<close>

definition entry :: "world \<Rightarrow> str \<Rightarrow> Clipboard option" where
  "entry w n = map_option (\<lambda>a. heap w ! a) (fmlookup (clipboards w) n)"

subsection \<open>Sequences of store operations\<close>

text \<open>A \<^verbatim>\<open>POST\<close> that \<^verbatim>\<open>set_text\<close> accepts: the header is right and the body decodes.\<close>

definition accepted :: "pylib \<Rightarrow> request \<Rightarrow> str \<Rightarrow> bool" where
  "accepted py req t =
     (r_content_type req = Some ''text/plain'' \<and> bytes_decode py (r_body req) = Some t)"

text \<open>
  The three operations on the store, as calls of the controller's methods:
  \<^verbatim>\<open>get_clipboard(name)\<close>, \<^verbatim>\<open>get_text(name)\<close> and \<^verbatim>\<open>set_text(name)\<close> under a
  given request. \<open>run\<close> performs a list of them one after the other.
\<close>

datatype store_op = GetOrCreate str | Read str | Write request str

fun perform :: "pylib \<Rightarrow> store_op \<Rightarrow> world \<Rightarrow> world" where
  "perform py (GetOrCreate nm) w = snd (get_clipboard nm w)"
| "perform py (Read nm) w = snd (get_text nm w)"
| "perform py (Write req nm) w = snd (set_text py req nm w)"

fun run :: "pylib \<Rightarrow> store_op list \<Rightarrow> world \<Rightarrow> world" where
  "run py [] w = w"
| "run py (x # xs) w = run py xs (perform py x w)"


text \<open>
  The time stamp a write to \<open>n\<close> started in \<open>w\<close> leaves behind: the clock reading taken
  by \<^verbatim>\<open>Clipboard.set\<close>, which is the next reading when the clipboard exists and the
  one after it when \<^verbatim>\<open>Clipboard(name)\<close> has to be run first.
\<close>

definition write_time :: "world \<Rightarrow> str \<Rightarrow> real" where
  "write_time w n =
     clock w (if fmlookup (clipboards w) n = None then Suc (ticks w) else ticks w)"






subsection \<open>Concrete clocks, worlds and requests\<close>

text \<open>Clocks that advance by 1, 100, 400 and 1000 seconds per reading.\<close>

definition seconds :: "nat \<Rightarrow> real" where
  "seconds i = real i"



definition slow :: "nat \<Rightarrow> real" where
  "slow i = 1000 * real i"

text \<open>The clipboard \<^verbatim>\<open>demo\<close> holding \<^verbatim>\<open>hello\<close>, last accessed at time 0.\<close>

definition demo_world :: "(nat \<Rightarrow> real) \<Rightarrow> world" where
  "demo_world ck =
     \<lparr>clipboards = fmupd ''demo'' 0 fmempty,
      heap = [\<lparr>c_name = ''demo'', c_text = ''hello'', c_timestamp = 0\<rparr>],
      clock = ck, ticks = 0\<rparr>"

definition post_hello :: request where
  "post_hello = \<lparr>r_method = ''POST'', r_content_type = Some ''text/plain'', r_body = ''hello'',
                  r_url = ''http://localhost/demo/text''\<rparr>"

definition post_json :: request where
  "post_json = \<lparr>r_method = ''POST'', r_content_type = Some ''application/json'', r_body = ''x'',
                 r_url = ''http://localhost/demo/text''\<rparr>"

definition post_bad_bytes :: request where
  "post_bad_bytes = \<lparr>r_method = ''POST'', r_content_type = Some ''text/plain'', r_body = [CHR 0xFF],
                      r_url = ''http://localhost/fresh/text''\<rparr>"




text \<open>
  The German word for street in lower case: \<^verbatim>\<open>stra\<close>, the letter U+00DF (sharp s) as
  the two bytes of its UTF-8 encoding, \<^verbatim>\<open>e\<close>. Python's \<^verbatim>\<open>upper()\<close> turns the
  word into \<^verbatim>\<open>STRASSE\<close>; its \<^verbatim>\<open>lower()\<close> leaves U+00DF as it is, as
  \<open>ascii_lower\<close> does.
\<close>

definition strasze :: str where
  "strasze = ''stra'' @ [CHR 0xC3, CHR 0x9F] @ ''e''"

definition get_request :: request where
  "get_request = \<lparr>r_method = ''GET'', r_content_type = None, r_body = [],
                   r_url = ''http://localhost/demo/text''\<rparr>"

text \<open>A \<^verbatim>\<open>POST\<close> that carries no \<^verbatim>\<open>Content-Type\<close> header.\<close>

definition post_no_header :: request where
  "post_no_header = \<lparr>r_method = ''POST'', r_content_type = None, r_body = ''x'',
                      r_url = ''http://localhost/demo/text''\<rparr>"


section \<open>Properties\<close>

subsection \<open>Basic facts\<close>

lemma nth_update_cases:
  "(xs[i := x]) ! j = (if i = j \<and> i < length xs then x else xs ! j)"
  by (cases "i < length xs") (auto simp: list_update_beyond)

lemma wfD:
  assumes "wf w" and "fmlookup (clipboards w) n = Some a"
  shows "a < length (heap w)" and "c_name (heap w ! a) = n"
proof -
  have "n |\<in>| fmdom (clipboards w)"
    using assms(2) by (rule fmdomI)
  with assms(1) have "case fmlookup (clipboards w) n of None \<Rightarrow> False
      | Some a \<Rightarrow> a < length (heap w) \<and> c_name (heap w ! a) = n"
    by (auto simp: wf_def)
  with assms(2) show "a < length (heap w)" and "c_name (heap w ! a) = n"
    by simp_all
qed

lemma wfI:
  assumes "\<And>n a. fmlookup (clipboards w) n = Some a
             \<Longrightarrow> a < length (heap w) \<and> c_name (heap w ! a) = n"
  shows "wf w"
  using assms by (auto simp: wf_def fmlookup_dom_iff)

lemma wf_boot: "wf (boot ck)"
  by (simp add: wf_def boot_def)

lemma wf_distinct:
  assumes "wf w" and "fmlookup (clipboards w) n = Some a"
    and "fmlookup (clipboards w) m = Some b" and "m \<noteq> n"
  shows "b \<noteq> a"
  using wfD(2)[OF assms(1,2)] wfD(2)[OF assms(1,3)] assms(4) by auto

lemma get_clipboard_old:
  "fmlookup (clipboards w) nm = Some a \<Longrightarrow> get_clipboard nm w = (a, w)"
  by (simp add: get_clipboard_def)

lemma get_clipboard_new:
  "fmlookup (clipboards w) nm = None \<Longrightarrow>
   get_clipboard nm w =
     (length (heap w),
      w\<lparr>clipboards := fmupd nm (length (heap w)) (clipboards w),
        heap := heap w @ [\<lparr>c_name = nm, c_text = [], c_timestamp = clock w (ticks w)\<rparr>],
        ticks := Suc (ticks w)\<rparr>)"
  by (simp add: get_clipboard_def Clipboard_init_def time_time_def)

lemma Clipboard_get_heap:
  "heap (snd (Clipboard_get self w)) =
     (heap w)[self := (heap w ! self)
        \<lparr>c_text := (if c_timestamp (heap w ! self) + TIMEOUT_SECS \<le> clock w (ticks w)
                    then [] else c_text (heap w ! self)),
         c_timestamp := clock w (Suc (ticks w))\<rparr>]"
  by (cases "self < length (heap w)")
     (simp_all add: Clipboard_get_def time_time_def assign_text_def assign_timestamp_def
        list_update_beyond)

lemma Clipboard_get_frame:
  "clipboards (snd (Clipboard_get self w)) = clipboards w"
  "clock (snd (Clipboard_get self w)) = clock w"
  "ticks (snd (Clipboard_get self w)) = Suc (Suc (ticks w))"
  by (simp_all add: Clipboard_get_def time_time_def assign_text_def assign_timestamp_def)

lemma Clipboard_get_result:
  "fst (Clipboard_get self w) = c_text (heap (snd (Clipboard_get self w)) ! self)"
  by (simp add: Clipboard_get_def Let_def split_def)

lemma Clipboard_set_heap:
  "heap (Clipboard_set self v w) =
     (heap w)[self := (heap w ! self)\<lparr>c_text := v, c_timestamp := clock w (ticks w)\<rparr>]"
  by (cases "self < length (heap w)")
     (simp_all add: Clipboard_set_def time_time_def assign_text_def assign_timestamp_def
        list_update_beyond)

lemma Clipboard_set_frame:
  "clipboards (Clipboard_set self v w) = clipboards w"
  "clock (Clipboard_set self v w) = clock w"
  "ticks (Clipboard_set self v w) = Suc (ticks w)"
  by (simp_all add: Clipboard_set_def time_time_def assign_text_def assign_timestamp_def)

lemma wf_same_names:
  assumes "wf w" and "clipboards w' = clipboards w"
    and "length (heap w') = length (heap w)"
    and "\<And>a. a < length (heap w) \<Longrightarrow> c_name (heap w' ! a) = c_name (heap w ! a)"
  shows "wf w'"
proof (rule wfI)
  fix n a
  assume "fmlookup (clipboards w') n = Some a"
  then have l: "fmlookup (clipboards w) n = Some a"
    by (simp add: assms(2))
  show "a < length (heap w') \<and> c_name (heap w' ! a) = n"
    using wfD[OF assms(1) l] assms(3,4) by simp
qed

lemma wf_Clipboard_get: "wf w \<Longrightarrow> wf (snd (Clipboard_get self w))"
  by (rule wf_same_names[of w])
     (simp_all add: Clipboard_get_frame Clipboard_get_heap nth_update_cases)

lemma wf_Clipboard_set: "wf w \<Longrightarrow> wf (Clipboard_set self v w)"
  by (rule wf_same_names[of w])
     (simp_all add: Clipboard_set_frame Clipboard_set_heap nth_update_cases)

lemma wf_get_clipboard:
  assumes "wf w"
  shows "wf (snd (get_clipboard nm w))"
proof (cases "fmlookup (clipboards w) nm")
  case (Some a)
  then show ?thesis
    using assms by (simp add: get_clipboard_old)
next
  case None
  show ?thesis
  proof (rule wfI)
    fix n a
    assume "fmlookup (clipboards (snd (get_clipboard nm w))) n = Some a"
    then have l: "(if nm = n then Some (length (heap w)) else fmlookup (clipboards w) n) = Some a"
      by (simp add: get_clipboard_new[OF None])
    show "a < length (heap (snd (get_clipboard nm w)))
            \<and> c_name (heap (snd (get_clipboard nm w)) ! a) = n"
    proof (cases "nm = n")
      case True
      with l have "a = length (heap w)"
        by simp
      then show ?thesis
        using True[symmetric] by (simp add: get_clipboard_new[OF None])
    next
      case False
      with l have "fmlookup (clipboards w) n = Some a"
        by simp
      from wfD[OF assms this] show ?thesis
        by (simp add: get_clipboard_new[OF None] nth_append)
    qed
  qed
qed

lemma wf_get_text: "wf w \<Longrightarrow> wf (snd (get_text nm w))"
  by (simp add: get_text_def Let_def split_def wf_Clipboard_get wf_get_clipboard)

lemma wf_set_text: "wf w \<Longrightarrow> wf (snd (set_text py req nm w))"
  by (simp add: set_text_def Let_def split_def wf_Clipboard_set wf_get_clipboard
        split: option.splits)

lemma wf_do_text: "wf w \<Longrightarrow> wf (snd (do_text py req nm w))"
  by (simp add: do_text_def wf_get_text wf_set_text)

subsection \<open>The effect of the handlers on the entries\<close>


lemma entryD:
  assumes "wf w" and "entry w n = Some c"
  obtains a where "fmlookup (clipboards w) n = Some a" and "a < length (heap w)"
    and "heap w ! a = c" and "c_name c = n"
proof -
  from assms(2) obtain a where a: "fmlookup (clipboards w) n = Some a" "heap w ! a = c"
    by (auto simp: entry_def)
  from wfD[OF assms(1) a(1)] a that show thesis
    by auto
qed

lemma entry_update:
  assumes "wf w" and "fmlookup (clipboards w) n = Some a"
    and "clipboards w' = clipboards w" and "heap w' = (heap w)[a := c']"
  shows "entry w' n = Some c'" and "m \<noteq> n \<Longrightarrow> entry w' m = entry w m"
proof -
  show "entry w' n = Some c'"
    using wfD(1)[OF assms(1,2)] assms(2-4) by (simp add: entry_def)
  assume neq: "m \<noteq> n"
  show "entry w' m = entry w m"
  proof (cases "fmlookup (clipboards w) m")
    case None
    then show ?thesis
      by (simp add: entry_def assms(3))
  next
    case (Some b)
    from wf_distinct[OF assms(1,2) Some neq] Some show ?thesis
      by (simp add: entry_def assms(3,4))
  qed
qed

lemma get_clipboard_lookup:
  "fmlookup (clipboards (snd (get_clipboard nm w))) nm = Some (fst (get_clipboard nm w))"
  by (cases "fmlookup (clipboards w) nm")
     (simp_all add: get_clipboard_new get_clipboard_old)

lemma get_clipboard_entry:
  "entry (snd (get_clipboard nm w)) nm =
     Some (case entry w nm of
             None \<Rightarrow> \<lparr>c_name = nm, c_text = [], c_timestamp = clock w (ticks w)\<rparr>
           | Some c \<Rightarrow> c)"
  by (cases "fmlookup (clipboards w) nm")
     (simp_all add: get_clipboard_new get_clipboard_old entry_def)

lemma get_clipboard_other:
  assumes "wf w" and "m \<noteq> nm"
  shows "entry (snd (get_clipboard nm w)) m = entry w m"
proof (cases "fmlookup (clipboards w) nm")
  case (Some a)
  then show ?thesis
    by (simp add: get_clipboard_old)
next
  case None
  show ?thesis
  proof (cases "fmlookup (clipboards w) m")
    case None
    then show ?thesis
      using assms(2) by (simp add: get_clipboard_new[OF \<open>fmlookup (clipboards w) nm = None\<close>] entry_def)
  next
    case (Some b)
    from wfD(1)[OF assms(1) Some] Some assms(2) show ?thesis
      by (simp add: get_clipboard_new[OF None] entry_def nth_append)
  qed
qed

lemma get_clipboard_ticks:
  "ticks (snd (get_clipboard nm w)) =
     (if fmlookup (clipboards w) nm = None then Suc (ticks w) else ticks w)"
  "clock (snd (get_clipboard nm w)) = clock w"
  by (cases "fmlookup (clipboards w) nm"; simp add: get_clipboard_new get_clipboard_old)+

lemma get_text_unfold:
  "get_text nm w =
     (Inr (PlainText (fst (Clipboard_get (fst (get_clipboard nm w)) (snd (get_clipboard nm w))))),
      snd (Clipboard_get (fst (get_clipboard nm w)) (snd (get_clipboard nm w))))"
  by (simp add: get_text_def Let_def split_def)

lemma get_text_entry:
  fixes w :: world and nm :: str
  assumes "wf w"
  defines "c \<equiv> (case entry w nm of
                   None \<Rightarrow> \<lparr>c_name = nm, c_text = [], c_timestamp = clock w (ticks w)\<rparr>
                 | Some c \<Rightarrow> c)"
    and "k \<equiv> (if fmlookup (clipboards w) nm = None then Suc (ticks w) else ticks w)"
  shows "entry (snd (get_text nm w)) nm =
           Some (c\<lparr>c_text := (if c_timestamp c + TIMEOUT_SECS \<le> clock w k then [] else c_text c),
                   c_timestamp := clock w (Suc k)\<rparr>)"
    and "fst (get_text nm w) =
           Inr (PlainText (if c_timestamp c + TIMEOUT_SECS \<le> clock w k then [] else c_text c))"
    and "m \<noteq> nm \<Longrightarrow> entry (snd (get_text nm w)) m = entry w m"
proof -
  define a where "a = fst (get_clipboard nm w)"
  define w1 where "w1 = snd (get_clipboard nm w)"
  define w2 where "w2 = snd (Clipboard_get a w1)"
  have wf1: "wf w1"
    unfolding w1_def using assms(1) by (rule wf_get_clipboard)
  have look: "fmlookup (clipboards w1) nm = Some a"
    unfolding w1_def a_def by (rule get_clipboard_lookup)
  have c: "heap w1 ! a = c"
    using get_clipboard_entry[of nm w] look by (simp add: entry_def w1_def c_def)
  have k: "ticks w1 = k" "clock w1 = clock w"
    by (simp_all add: w1_def k_def get_clipboard_ticks)
  have w2: "snd (get_text nm w) = w2"
    by (simp add: get_text_unfold w2_def a_def w1_def)
  have h2: "heap w2 = (heap w1)[a :=
              c\<lparr>c_text := (if c_timestamp c + TIMEOUT_SECS \<le> clock w k then [] else c_text c),
                c_timestamp := clock w (Suc k)\<rparr>]"
    by (simp add: w2_def Clipboard_get_heap c k)
  have c2: "clipboards w2 = clipboards w1"
    by (simp add: w2_def Clipboard_get_frame)
  show e: "entry (snd (get_text nm w)) nm =
           Some (c\<lparr>c_text := (if c_timestamp c + TIMEOUT_SECS \<le> clock w k then [] else c_text c),
                   c_timestamp := clock w (Suc k)\<rparr>)"
    unfolding w2 by (rule entry_update(1)[OF wf1 look c2 h2])
  have "fst (get_text nm w) = Inr (PlainText (c_text (heap w2 ! a)))"
    by (simp add: get_text_unfold Clipboard_get_result w2_def a_def w1_def)
  moreover have "a < length (heap w1)"
    using wfD(1)[OF wf1 look] .
  ultimately show "fst (get_text nm w) =
           Inr (PlainText (if c_timestamp c + TIMEOUT_SECS \<le> clock w k then [] else c_text c))"
    by (simp add: h2)
  assume neq: "m \<noteq> nm"
  have "entry w2 m = entry w1 m"
    using neq by (rule entry_update(2)[OF wf1 look c2 h2])
  also have "\<dots> = entry w m"
    unfolding w1_def using assms(1) neq by (rule get_clipboard_other)
  finally show "entry (snd (get_text nm w)) m = entry w m"
    unfolding w2 .
qed

lemma set_text_accepted:
  "accepted py req t \<Longrightarrow>
   set_text py req nm w =
     (Inr NoContent, Clipboard_set (fst (get_clipboard nm w)) t (snd (get_clipboard nm w)))"
  by (simp add: accepted_def set_text_def Let_def split_def)


lemma set_text_entry:
  fixes w :: world and nm :: str
  assumes "wf w" and "accepted py req t"
  defines "k \<equiv> (if fmlookup (clipboards w) nm = None then Suc (ticks w) else ticks w)"
  shows "entry (snd (set_text py req nm w)) nm =
           Some \<lparr>c_name = nm, c_text = t, c_timestamp = clock w k\<rparr>"
    and "m \<noteq> nm \<Longrightarrow> entry (snd (set_text py req nm w)) m = entry w m"
proof -
  define a where "a = fst (get_clipboard nm w)"
  define w1 where "w1 = snd (get_clipboard nm w)"
  define w2 where "w2 = Clipboard_set a t w1"
  have wf1: "wf w1"
    unfolding w1_def using assms(1) by (rule wf_get_clipboard)
  have look: "fmlookup (clipboards w1) nm = Some a"
    unfolding w1_def a_def by (rule get_clipboard_lookup)
  have k: "ticks w1 = k" "clock w1 = clock w"
    by (simp_all add: w1_def k_def get_clipboard_ticks)
  have w2: "snd (set_text py req nm w) = w2"
    by (simp add: set_text_accepted[OF assms(2)] w2_def a_def w1_def)
  have "(heap w1 ! a)\<lparr>c_text := t, c_timestamp := clock w k\<rparr>
          = \<lparr>c_name = nm, c_text = t, c_timestamp = clock w k\<rparr>"
    using wfD(2)[OF wf1 look] by simp
  then have h2: "heap w2 = (heap w1)[a := \<lparr>c_name = nm, c_text = t, c_timestamp = clock w k\<rparr>]"
    by (simp add: w2_def Clipboard_set_heap k)
  have c2: "clipboards w2 = clipboards w1"
    by (simp add: w2_def Clipboard_set_frame)
  show "entry (snd (set_text py req nm w)) nm =
           Some \<lparr>c_name = nm, c_text = t, c_timestamp = clock w k\<rparr>"
    unfolding w2 by (rule entry_update(1)[OF wf1 look c2 h2])
  assume neq: "m \<noteq> nm"
  have "entry w2 m = entry w1 m"
    using neq by (rule entry_update(2)[OF wf1 look c2 h2])
  also have "\<dots> = entry w m"
    unfolding w1_def using assms(1) neq by (rule get_clipboard_other)
  finally show "entry (snd (set_text py req nm w)) m = entry w m"
    unfolding w2 .
qed

subsection \<open>Clipboard.get\<close>

text \<open>
  C1. A call of \<^verbatim>\<open>get\<close> on a clipboard reads the clock twice. If the first reading
  \<open>now\<close> satisfies \<open>now - lastAccess \<ge> TIMEOUT\<close>, the text is reset to the empty string
  (and otherwise it is kept); the time stamp then becomes the second reading, whether or
  not the text was cleared; and the call returns the text the clipboard now holds.
\<close>

theorem Clipboard_get_spec:
  assumes "self < length (heap w)"
  shows "c_text (heap (snd (Clipboard_get self w)) ! self) =
           (if clock w (ticks w) - c_timestamp (heap w ! self) \<ge> TIMEOUT_SECS
            then [] else c_text (heap w ! self))
         \<and> c_timestamp (heap (snd (Clipboard_get self w)) ! self) = clock w (Suc (ticks w))
         \<and> fst (Clipboard_get self w) = c_text (heap (snd (Clipboard_get self w)) ! self)"
proof -
  have ret: "fst (Clipboard_get self w) = c_text (heap (snd (Clipboard_get self w)) ! self)"
    by (simp add: Clipboard_get_def Let_def split_def)
  have swap: "(clock w (ticks w) - c_timestamp (heap w ! self) \<ge> TIMEOUT_SECS)
                = (c_timestamp (heap w ! self) + TIMEOUT_SECS \<le> clock w (ticks w))"
    by linarith
  show ?thesis
    using assms ret by (simp add: Clipboard_get_heap swap)
qed

theorem Clipboard_get_spec_witness:
  "0 < length (heap (demo_world slow))
   \<and> fst (Clipboard_get 0 (demo_world slow)) = ''hello''
   \<and> c_timestamp (heap (snd (Clipboard_get 0 (demo_world slow))) ! 0) = 1000
   \<and> fst (Clipboard_get 0 ((demo_world slow)\<lparr>ticks := 1\<rparr>)) = []
   \<and> c_timestamp (heap (snd (Clipboard_get 0 ((demo_world slow)\<lparr>ticks := 1\<rparr>))) ! 0) = 2000"
  using Clipboard_get_spec[of 0 "demo_world slow"]
    Clipboard_get_spec[of 0 "(demo_world slow)\<lparr>ticks := 1\<rparr>"]
  by (simp add: demo_world_def slow_def TIMEOUT_SECS_def)

subsection \<open>First access\<close>

text \<open>
  C7. The first access to a name the dictionary does not have, a read (\<^verbatim>\<open>get_text\<close>)
  as well as a write (\<^verbatim>\<open>set_text\<close> on an accepted request), begins with
  \<^verbatim>\<open>get_clipboard\<close>, which creates the clipboard with the empty text and the current
  clock reading as time stamp and enters it under the name; the access then goes on in
  the world so extended. The read succeeds, returns the empty string and leaves the
  clipboard in the registry, empty and stamped with the last reading the read took;
  the write leaves it there with the written text.
\<close>

theorem first_access_creates:
  assumes "fmlookup (clipboards w) nm = None"
  shows "entry (snd (get_clipboard nm w)) nm =
           Some \<lparr>c_name = nm, c_text = [], c_timestamp = clock w (ticks w)\<rparr>
         \<and> get_text nm w =
             (Inr (PlainText []), snd (Clipboard_get (length (heap w)) (snd (get_clipboard nm w))))
         \<and> entry (snd (get_text nm w)) nm =
             Some \<lparr>c_name = nm, c_text = [], c_timestamp = clock w (Suc (Suc (ticks w)))\<rparr>
         \<and> (accepted py req t \<longrightarrow>
              set_text py req nm w =
                (Inr NoContent, Clipboard_set (length (heap w)) t (snd (get_clipboard nm w)))
              \<and> entry (snd (set_text py req nm w)) nm =
                  Some \<lparr>c_name = nm, c_text = t, c_timestamp = clock w (Suc (ticks w))\<rparr>)"
proof -
  let ?a = "length (heap w)"
  let ?w1 = "snd (get_clipboard nm w)"
  have a: "fst (get_clipboard nm w) = ?a"
    using assms by (simp add: get_clipboard_new)
  have look: "fmlookup (clipboards ?w1) nm = Some ?a"
    using assms by (simp add: get_clipboard_new)
  have h1: "heap ?w1 = heap w @ [\<lparr>c_name = nm, c_text = [], c_timestamp = clock w (ticks w)\<rparr>]"
    and t1: "ticks ?w1 = Suc (ticks w)" and c1: "clock ?w1 = clock w"
    using assms by (simp_all add: get_clipboard_new)
  have created: "entry ?w1 nm = Some \<lparr>c_name = nm, c_text = [], c_timestamp = clock w (ticks w)\<rparr>"
    by (simp add: entry_def look h1)
  have "fst (Clipboard_get ?a ?w1) = []"
    by (simp add: Clipboard_get_result Clipboard_get_heap h1)
  then have rd: "get_text nm w = (Inr (PlainText []), snd (Clipboard_get ?a ?w1))"
    by (simp add: get_text_unfold a)
  have after_read: "entry (snd (get_text nm w)) nm =
      Some \<lparr>c_name = nm, c_text = [], c_timestamp = clock w (Suc (Suc (ticks w)))\<rparr>"
    by (simp add: rd entry_def Clipboard_get_frame Clipboard_get_heap look h1 t1 c1)
  have wr: "set_text py req nm w = (Inr NoContent, Clipboard_set ?a t ?w1)"
    and after_write: "entry (snd (set_text py req nm w)) nm =
      Some \<lparr>c_name = nm, c_text = t, c_timestamp = clock w (Suc (ticks w))\<rparr>"
    if acc: "accepted py req t"
  proof -
    show wr: "set_text py req nm w = (Inr NoContent, Clipboard_set ?a t ?w1)"
      by (simp add: set_text_accepted[OF acc] a)
    show "entry (snd (set_text py req nm w)) nm =
      Some \<lparr>c_name = nm, c_text = t, c_timestamp = clock w (Suc (ticks w))\<rparr>"
      by (simp add: wr entry_def Clipboard_set_frame Clipboard_set_heap look h1 t1 c1)
  qed
  from created rd after_read wr after_write show ?thesis
    by simp
qed

theorem first_access_creates_witness:
  "fmlookup (clipboards (boot seconds)) ''neverused'' = None
   \<and> accepted cpython post_hello ''hello''
   \<and> entry (snd (get_clipboard ''neverused'' (boot seconds))) ''neverused'' =
       Some \<lparr>c_name = ''neverused'', c_text = [], c_timestamp = 0\<rparr>
   \<and> fst (get_text ''neverused'' (boot seconds)) = Inr (PlainText [])
   \<and> entry (snd (get_text ''neverused'' (boot seconds))) ''neverused'' =
       Some \<lparr>c_name = ''neverused'', c_text = [], c_timestamp = 2\<rparr>
   \<and> fst (set_text cpython post_hello ''neverused'' (boot seconds)) = Inr NoContent
   \<and> entry (snd (set_text cpython post_hello ''neverused'' (boot seconds))) ''neverused'' =
       Some \<lparr>c_name = ''neverused'', c_text = ''hello'', c_timestamp = 1\<rparr>"
proof -
  have n: "fmlookup (clipboards (boot seconds)) ''neverused'' = None"
    by (simp add: boot_def)
  have a: "accepted cpython post_hello ''hello''"
    by (simp add: accepted_def cpython_def post_hello_def utf8_decode_def)
  have k: "clock (boot seconds) (ticks (boot seconds)) = 0"
    "clock (boot seconds) (Suc (ticks (boot seconds))) = 1"
    "clock (boot seconds) (Suc (Suc (ticks (boot seconds)))) = 2"
    by (simp_all add: boot_def seconds_def)
  note inst = first_access_creates[OF n, of cpython post_hello "''hello''"]
  from inst have created: "entry (snd (get_clipboard ''neverused'' (boot seconds))) ''neverused'' =
      Some \<lparr>c_name = ''neverused'', c_text = [],
            c_timestamp = clock (boot seconds) (ticks (boot seconds))\<rparr>"
    by blast
  from inst have "get_text ''neverused'' (boot seconds) =
      (Inr (PlainText []), snd (Clipboard_get (length (heap (boot seconds)))
         (snd (get_clipboard ''neverused'' (boot seconds)))))"
    by blast
  then have rd: "fst (get_text ''neverused'' (boot seconds)) = Inr (PlainText [])"
    by simp
  from inst have after_read: "entry (snd (get_text ''neverused'' (boot seconds))) ''neverused'' =
      Some \<lparr>c_name = ''neverused'', c_text = [],
            c_timestamp = clock (boot seconds) (Suc (Suc (ticks (boot seconds))))\<rparr>"
    by blast
  from inst a have "set_text cpython post_hello ''neverused'' (boot seconds) =
      (Inr NoContent, Clipboard_set (length (heap (boot seconds))) ''hello''
         (snd (get_clipboard ''neverused'' (boot seconds))))"
    by blast
  then have wr: "fst (set_text cpython post_hello ''neverused'' (boot seconds)) = Inr NoContent"
    by simp
  from inst a
  have after_write: "entry (snd (set_text cpython post_hello ''neverused'' (boot seconds)))
      ''neverused'' =
      Some \<lparr>c_name = ''neverused'', c_text = ''hello'',
            c_timestamp = clock (boot seconds) (Suc (ticks (boot seconds)))\<rparr>"
    by blast
  from n a rd wr show ?thesis
    by (simp add: created after_read after_write k)
qed

subsection \<open>Rejected writes\<close>

text \<open>
  A \<^verbatim>\<open>POST\<close> whose \<^verbatim>\<open>Content-Type\<close> header is present with a value other than
  \<^verbatim>\<open>text/plain\<close> fails with \<^verbatim>\<open>HTTPError(400)\<close>, and the world after the request
  is the world before it.
\<close>

lemma other_content_type_rejected:
  assumes "r_method req = ''POST''" and "r_content_type req = Some ct" and "ct \<noteq> ''text/plain''"
  shows "do_text py req nm w = (Inl (HTTPError 400), w)"
  using assms by (simp add: do_text_def set_text_def)

text \<open>
  C8 at a \<^verbatim>\<open>POST\<close> that carries no \<^verbatim>\<open>Content-Type\<close> header at all. Its content
  type is not \<^verbatim>\<open>text/plain\<close>, yet the request does not fail with 400: the subscript
  \<^verbatim>\<open>cherrypy.request.headers["Content-Type"]\<close> raises \<^verbatim>\<open>KeyError\<close> before the
  comparison is made. The store is left as it was.
\<close>

theorem post_without_content_type:
  "r_method post_no_header = ''POST'' \<and> r_content_type post_no_header \<noteq> Some ''text/plain''
   \<and> do_text cpython post_no_header ''demo'' (demo_world seconds)
       = (Inl KeyError, demo_world seconds)
   \<and> fst (do_text cpython post_no_header ''demo'' (demo_world seconds)) \<noteq> Inl (HTTPError 400)"
  by (simp add: do_text_def set_text_def post_no_header_def)

text \<open>
  C10. \<^verbatim>\<open>set_text\<close> checks the header and decodes the body before it calls
  \<^verbatim>\<open>get_clipboard\<close>: a \<^verbatim>\<open>POST\<close> with a wrong (or no) \<^verbatim>\<open>Content-Type\<close>, or with
  a body that is not UTF-8, raises and leaves the whole world as it was. No entry is
  created for a name the dictionary did not have, and no clipboard is modified.
\<close>

theorem failed_write_leaves_registry:
  assumes "r_content_type req \<noteq> Some ''text/plain'' \<or> bytes_decode py (r_body req) = None"
  shows "(\<exists>e. set_text py req nm w = (Inl e, w))
         \<and> clipboards (snd (set_text py req nm w)) = clipboards w
         \<and> heap (snd (set_text py req nm w)) = heap w
         \<and> (fmlookup (clipboards w) nm = None
              \<longrightarrow> fmlookup (clipboards (snd (set_text py req nm w))) nm = None)
         \<and> (r_content_type req = Some ''text/plain''
              \<longrightarrow> set_text py req nm w = (Inl UnicodeDecodeError, w))"
  using assms by (auto simp: set_text_def split: option.splits)

theorem failed_write_leaves_registry_witness:
  "bytes_decode cpython (r_body post_bad_bytes) = None
   \<and> fmlookup (clipboards (demo_world seconds)) ''fresh'' = None
   \<and> set_text cpython post_bad_bytes ''fresh'' (demo_world seconds)
       = (Inl UnicodeDecodeError, demo_world seconds)
   \<and> fmlookup (clipboards (snd (set_text cpython post_bad_bytes ''fresh'' (demo_world seconds))))
       ''fresh'' = None"
proof -
  have d: "bytes_decode cpython (r_body post_bad_bytes) = None"
    by (simp add: cpython_def post_bad_bytes_def utf8_decode_def)
  have n: "fmlookup (clipboards (demo_world seconds)) ''fresh'' = None"
    by (simp add: demo_world_def)
  have c: "r_content_type post_bad_bytes = Some ''text/plain''"
    by (simp add: post_bad_bytes_def)
  from failed_write_leaves_registry[of post_bad_bytes cpython "''fresh''" "demo_world seconds"]
    d n c show ?thesis
    by simp
qed

subsection \<open>Write, then read\<close>

lemma set_text_clock: "clock (snd (set_text py req nm w)) = clock w"
  by (simp add: set_text_def Let_def split_def Clipboard_set_frame get_clipboard_ticks
        split: option.splits)


lemma wf_ticks: "wf (w\<lparr>ticks := k\<rparr>) = wf w"
proof
  assume "wf (w\<lparr>ticks := k\<rparr>)"
  then show "wf w"
    by (rule wf_same_names) simp_all
next
  assume "wf w"
  then show "wf (w\<lparr>ticks := k\<rparr>)"
    by (rule wf_same_names) simp_all
qed

lemma entry_ticks: "entry (w\<lparr>ticks := k\<rparr>) n = entry w n"
  by (simp add: entry_def)

text \<open>
  C2. Let a write of \<open>t\<close> to \<open>n\<close> be accepted in a world \<open>w\<close>; it stores \<open>t\<close> with the
  time stamp \<open>t0 = write_time w n\<close>. Let \<open>w2\<close> be any later world in which the clipboard
  \<open>n\<close> is as the write left it (nothing has accessed it; the clock and the other
  clipboards are arbitrary). A read of \<open>n\<close> in \<open>w2\<close> whose clock reading is less than
  \<open>t0 + TIMEOUT_SECS\<close> returns \<open>t\<close>; one whose reading is at least that returns the
  empty string.
\<close>

theorem write_then_read:
  assumes "wf w" and "accepted py req t"
    and "wf w2" and "entry w2 n = entry (snd (set_text py req n w)) n"
  shows "fst (set_text py req n w) = Inr NoContent
         \<and> entry (snd (set_text py req n w)) n =
             Some \<lparr>c_name = n, c_text = t, c_timestamp = write_time w n\<rparr>
         \<and> (clock w2 (ticks w2) < write_time w n + TIMEOUT_SECS
              \<longrightarrow> fst (get_text n w2) = Inr (PlainText t))
         \<and> (write_time w n + TIMEOUT_SECS \<le> clock w2 (ticks w2)
              \<longrightarrow> fst (get_text n w2) = Inr (PlainText []))"
proof -
  have ret: "fst (set_text py req n w) = Inr NoContent"
    by (simp add: set_text_accepted[OF assms(2)])
  have e1: "entry (snd (set_text py req n w)) n =
              Some \<lparr>c_name = n, c_text = t, c_timestamp = write_time w n\<rparr>"
    using set_text_entry(1)[OF assms(1,2), of n] by (simp add: write_time_def)
  with assms(4) have e2: "entry w2 n = Some \<lparr>c_name = n, c_text = t, c_timestamp = write_time w n\<rparr>"
    by simp
  then have "fmlookup (clipboards w2) n \<noteq> None"
    by (auto simp: entry_def)
  with get_text_entry(2)[OF assms(3), of n] e2
  have "fst (get_text n w2) =
          Inr (PlainText (if write_time w n + TIMEOUT_SECS \<le> clock w2 (ticks w2) then [] else t))"
    by simp
  with ret e1 show ?thesis
    by simp
qed

theorem write_then_read_witness:
  "wf (boot seconds) \<and> accepted cpython post_hello ''hello''
   \<and> write_time (boot seconds) ''demo'' = 1
   \<and> fst (get_text ''demo'' (snd (set_text cpython post_hello ''demo'' (boot seconds))))
       = Inr (PlainText ''hello'')
   \<and> fst (get_text ''demo''
            ((snd (set_text cpython post_hello ''demo'' (boot seconds)))\<lparr>ticks := 900\<rparr>))
       = Inr (PlainText ''hello'')
   \<and> fst (get_text ''demo''
            ((snd (set_text cpython post_hello ''demo'' (boot seconds)))\<lparr>ticks := 901\<rparr>))
       = Inr (PlainText [])"
proof -
  let ?w1 = "snd (set_text cpython post_hello ''demo'' (boot seconds))"
  have a: "accepted cpython post_hello ''hello''"
    by (simp add: accepted_def cpython_def post_hello_def utf8_decode_def)
  have t0: "write_time (boot seconds) ''demo'' = 1"
    by (simp add: write_time_def boot_def seconds_def)
  have wf1: "wf ?w1"
    by (simp add: wf_set_text wf_boot)
  have ck: "clock ?w1 = seconds"
    by (simp add: set_text_clock boot_def)
  have tk: "ticks ?w1 = 2"
    by (simp add: set_text_accepted[OF a] Clipboard_set_frame get_clipboard_ticks boot_def)
  have r0: "fst (get_text ''demo'' ?w1) = Inr (PlainText ''hello'')"
    using write_then_read[OF wf_boot a wf1, of "''demo''" seconds]
    by (simp add: t0 ck tk seconds_def TIMEOUT_SECS_def)
  have r1: "fst (get_text ''demo'' (?w1\<lparr>ticks := 900\<rparr>)) = Inr (PlainText ''hello'')"
    using write_then_read[OF wf_boot a, of "?w1\<lparr>ticks := 900\<rparr>" "''demo''" seconds]
    by (simp add: wf_ticks entry_ticks wf1 t0 ck seconds_def TIMEOUT_SECS_def)
  have r2: "fst (get_text ''demo'' (?w1\<lparr>ticks := 901\<rparr>)) = Inr (PlainText [])"
    using write_then_read[OF wf_boot a, of "?w1\<lparr>ticks := 901\<rparr>" "''demo''" seconds]
    by (simp add: wf_ticks entry_ticks wf1 t0 ck seconds_def TIMEOUT_SECS_def)
  from a t0 r0 r1 r2 show ?thesis
    by (simp add: wf_boot)
qed

subsection \<open>The registry only grows\<close>

lemma get_clipboard_clipboards:
  "clipboards (snd (get_clipboard nm w)) =
     (case fmlookup (clipboards w) nm of
        None \<Rightarrow> fmupd nm (length (heap w)) (clipboards w)
      | Some a \<Rightarrow> clipboards w)"
  by (cases "fmlookup (clipboards w) nm")
     (simp_all add: get_clipboard_new get_clipboard_old)

lemma get_text_clipboards:
  "clipboards (snd (get_text nm w)) = clipboards (snd (get_clipboard nm w))"
  by (simp add: get_text_unfold Clipboard_get_frame)

lemma set_text_clipboards:
  "clipboards (snd (set_text py req nm w)) = clipboards w
   \<or> clipboards (snd (set_text py req nm w)) = clipboards (snd (get_clipboard nm w))"
  by (simp add: set_text_def Let_def split_def Clipboard_set_frame split: option.splits)

lemma perform_clipboards:
  "clipboards (perform py x w) = clipboards w
   \<or> (\<exists>nm. fmlookup (clipboards w) nm = None
          \<and> clipboards (perform py x w) = fmupd nm (length (heap w)) (clipboards w))"
proof -
  have g: "clipboards (snd (get_clipboard nm w)) = clipboards w
           \<or> (fmlookup (clipboards w) nm = None
               \<and> clipboards (snd (get_clipboard nm w)) = fmupd nm (length (heap w)) (clipboards w))"
    for nm
    by (cases "fmlookup (clipboards w) nm") (simp_all add: get_clipboard_clipboards)
  show ?thesis
  proof (cases x)
    case (GetOrCreate nm)
    with g[of nm] show ?thesis by auto
  next
    case (Read nm)
    with g[of nm] show ?thesis by (auto simp: get_text_clipboards)
  next
    case (Write req nm)
    with g[of nm] set_text_clipboards[of py req nm w] show ?thesis by auto
  qed
qed

lemma perform_keeps:
  assumes "fmlookup (clipboards w) n = Some a"
  shows "fmlookup (clipboards (perform py x w)) n = Some a"
  using perform_clipboards[of py x w] assms by auto

lemma perform_card:
  "fcard (fmdom (clipboards w)) \<le> fcard (fmdom (clipboards (perform py x w)))"
  using perform_clipboards[of py x w] by (auto simp: fcard_finsert_le)

lemma run_keeps:
  "fmlookup (clipboards w) n = Some a \<Longrightarrow> fmlookup (clipboards (run py xs w)) n = Some a"
  by (induction xs arbitrary: w) (simp_all add: perform_keeps)

lemma run_card:
  "fcard (fmdom (clipboards w)) \<le> fcard (fmdom (clipboards (run py xs w)))"
proof (induction xs arbitrary: w)
  case Nil
  show ?case by simp
next
  case (Cons x xs)
  have "fcard (fmdom (clipboards w)) \<le> fcard (fmdom (clipboards (perform py x w)))"
    by (rule perform_card)
  also have "\<dots> \<le> fcard (fmdom (clipboards (run py xs (perform py x w))))"
    by (rule Cons.IH)
  finally show ?case by simp
qed

text \<open>
  C4. No operation on the store removes an entry. After any sequence of
  \<^verbatim>\<open>get_clipboard\<close>, \<^verbatim>\<open>get_text\<close> and \<^verbatim>\<open>set_text\<close> calls, a name that was present
  refers to the same object (the same address) as before, and the number of entries is
  at least what it was. \<^verbatim>\<open>get_clipboard\<close> returns the object the dictionary has for
  the name and changes nothing, or, for a name it does not have, allocates one new
  object with the empty text, enters it under the name and so adds exactly one entry.
\<close>

theorem registry_only_grows:
  "(fmlookup (clipboards w) n = Some a \<longrightarrow> fmlookup (clipboards (run py xs w)) n = Some a)
   \<and> fcard (fmdom (clipboards w)) \<le> fcard (fmdom (clipboards (run py xs w)))
   \<and> (fmlookup (clipboards w) nm = Some a \<longrightarrow> get_clipboard nm w = (a, w))
   \<and> (fmlookup (clipboards w) nm = None \<longrightarrow>
        fst (get_clipboard nm w) = length (heap w)
        \<and> clipboards (snd (get_clipboard nm w)) = fmupd nm (length (heap w)) (clipboards w)
        \<and> heap (snd (get_clipboard nm w)) =
            heap w @ [\<lparr>c_name = nm, c_text = [], c_timestamp = clock w (ticks w)\<rparr>]
        \<and> fcard (fmdom (clipboards (snd (get_clipboard nm w))))
            = Suc (fcard (fmdom (clipboards w))))"
proof -
  have "fcard (fmdom (clipboards (snd (get_clipboard nm w)))) = Suc (fcard (fmdom (clipboards w)))"
    if "fmlookup (clipboards w) nm = None"
  proof -
    from that have "nm |\<notin>| fmdom (clipboards w)"
      by (rule fmdom_notI)
    then show ?thesis
      using that by (simp add: get_clipboard_new fcard_finsert_disjoint)
  qed
  then show ?thesis
    by (simp add: run_keeps run_card get_clipboard_old get_clipboard_new)
qed

theorem registry_only_grows_witness:
  "fmlookup (clipboards (demo_world seconds)) ''demo'' = Some 0
   \<and> fmlookup (clipboards (demo_world seconds)) ''other'' = None
   \<and> fmlookup (clipboards (run cpython
          [Read ''other'', Write post_hello ''demo'', GetOrCreate ''third'']
          (demo_world seconds))) ''demo'' = Some 0
   \<and> fcard (fmdom (clipboards (demo_world seconds))) = 1
   \<and> fcard (fmdom (clipboards (run cpython
          [Read ''other'', Write post_hello ''demo'', GetOrCreate ''third'']
          (demo_world seconds)))) = 3
   \<and> get_clipboard ''demo'' (demo_world seconds) = (0, demo_world seconds)
   \<and> fst (get_clipboard ''other'' (demo_world seconds)) = 1
   \<and> fcard (fmdom (clipboards (snd (get_clipboard ''other'' (demo_world seconds))))) = 2"
proof -
  let ?xs = "[Read ''other'', Write post_hello ''demo'', GetOrCreate ''third'']"
  have old: "fmlookup (clipboards (demo_world seconds)) ''demo'' = Some 0"
    by (simp add: demo_world_def)
  have new: "fmlookup (clipboards (demo_world seconds)) ''other'' = None"
    by (simp add: demo_world_def)
  have c1: "fcard (fmdom (clipboards (demo_world seconds))) = 1"
    by (simp add: demo_world_def fcard_finsert_if)
  have c3: "fcard (fmdom (clipboards (run cpython ?xs (demo_world seconds)))) = 3"
    by (simp add: get_text_def set_text_def get_clipboard_def Clipboard_init_def
          Clipboard_get_def Clipboard_set_def time_time_def assign_text_def
          assign_timestamp_def demo_world_def post_hello_def cpython_def utf8_decode_def
          Let_def fcard_finsert_if)
  have h: "length (heap (demo_world seconds)) = 1"
    by (simp add: demo_world_def)
  note present = registry_only_grows[of "demo_world seconds" "''demo''" 0 cpython ?xs "''demo''"]
  note absent = registry_only_grows[of "demo_world seconds" "''demo''" 0 cpython ?xs "''other''"]
  from present old
  have kept: "fmlookup (clipboards (run cpython ?xs (demo_world seconds))) ''demo'' = Some 0"
    and same: "get_clipboard ''demo'' (demo_world seconds) = (0, demo_world seconds)"
    by blast+
  from absent new
  have fresh: "fst (get_clipboard ''other'' (demo_world seconds))
                 = length (heap (demo_world seconds))"
    and one: "fcard (fmdom (clipboards (snd (get_clipboard ''other'' (demo_world seconds)))))
                = Suc (fcard (fmdom (clipboards (demo_world seconds))))"
    by blast+
  from fresh h have fresh1: "fst (get_clipboard ''other'' (demo_world seconds)) = 1"
    by simp
  from one c1
  have two: "fcard (fmdom (clipboards (snd (get_clipboard ''other'' (demo_world seconds))))) = 2"
    by simp
  from old new kept c1 c3 same fresh1 two show ?thesis
    by blast
qed

subsection \<open>Accesses keep the content alive\<close>




















subsection \<open>Names and letter case\<close>

text \<open>
  C5, as stated, fails: \<^verbatim>\<open>get_clipboard\<close> looks the name up as it is given. After
  \<^verbatim>\<open>hello\<close> has been written under \<^verbatim>\<open>FooBar\<close>, the names \<^verbatim>\<open>FooBar\<close> and
  \<^verbatim>\<open>foobar\<close> (equal after lower-casing) yield two different objects, and reads of
  them return different texts.
\<close>

theorem get_clipboard_case_sensitive:
  "str_lower cpython ''FooBar'' = str_lower cpython ''foobar''
   \<and> fst (get_clipboard ''FooBar'' (snd (set_text cpython post_hello ''FooBar'' (boot seconds))))
       = 0
   \<and> fst (get_clipboard ''foobar'' (snd (set_text cpython post_hello ''FooBar'' (boot seconds))))
       = 1
   \<and> fst (get_text ''FooBar'' (snd (set_text cpython post_hello ''FooBar'' (boot seconds))))
       = Inr (PlainText ''hello'')
   \<and> fst (get_text ''foobar'' (snd (set_text cpython post_hello ''FooBar'' (boot seconds))))
       = Inr (PlainText [])"
  by code_simp

text \<open>
  C5, amended. The exposed handler \<^verbatim>\<open>default\<close> lower-cases the name segment with
  \<^verbatim>\<open>str.lower\<close> before it calls \<^verbatim>\<open>do_text\<close>: a request for \<^verbatim>\<open>/n/text\<close> is
  served from the registry key \<open>lower n\<close>, so two requests whose names have the same
  lower-casing are served alike, from the same clipboard.
\<close>

theorem default_lowers_name:
  assumes "str_lower py n = str_lower py n'"
  shows "default_handler py wordlist picks req [n, s] w
           = default_handler py wordlist picks req [n', s] w
         \<and> (str_lower py s = ''text'' \<longrightarrow>
              default_handler py wordlist picks req [n, s] w
                = do_text py req (str_lower py n) w)"
  using assms by (simp add: default_handler_def)

theorem default_lowers_name_witness:
  "str_lower cpython ''Demo'' = str_lower cpython ''DEMO''
   \<and> str_lower cpython ''text'' = ''text''
   \<and> fst (default_handler cpython [] [] get_request [''Demo'', ''text''] (demo_world seconds))
       = Inr (PlainText ''hello'')
   \<and> fst (default_handler cpython [] [] get_request [''DEMO'', ''text''] (demo_world seconds))
       = Inr (PlainText ''hello'')"
proof -
  have l: "str_lower cpython ''Demo'' = ''demo''" "str_lower cpython ''DEMO'' = ''demo''"
    "str_lower cpython ''text'' = ''text''"
    by code_simp+
  have g: "fst (do_text cpython get_request ''demo'' (demo_world seconds))
             = Inr (PlainText ''hello'')"
    by (simp add: do_text_def get_request_def get_text_def get_clipboard_def
          Clipboard_get_def time_time_def assign_text_def assign_timestamp_def
          demo_world_def seconds_def TIMEOUT_SECS_def Let_def)
  have pre: "str_lower cpython ''Demo'' = str_lower cpython ''DEMO''"
    by (simp add: l)
  note inst = default_lowers_name[OF pre, of "[]" "[]" get_request "''text''" "demo_world seconds"]
  have same: "default_handler cpython [] [] get_request [''DEMO'', ''text''] (demo_world seconds)
                = default_handler cpython [] [] get_request [''Demo'', ''text''] (demo_world seconds)"
    using conjunct1[OF inst] by (rule sym)
  have served: "default_handler cpython [] [] get_request [''Demo'', ''text''] (demo_world seconds)
                = do_text cpython get_request ''demo'' (demo_world seconds)"
    using conjunct2[OF inst] by (simp add: l)
  from l show ?thesis
    by (simp add: same served g)
qed

text \<open>
  Lower-casing is not case folding: a name and its upper-case form need not be served
  from the same clipboard. What is written under \<^verbatim>\<open>STRASSE\<close> is not read back under
  \<open>strasze\<close>.
\<close>

lemma lowering_is_not_folding:
  "fst (default_handler cpython [] [] get_request [''STRASSE'', ''text'']
         (snd (default_handler cpython [] [] post_hello [''STRASSE'', ''text''] (boot seconds))))
     = Inr (PlainText ''hello'')
   \<and> fst (default_handler cpython [] [] get_request [strasze, ''text'']
         (snd (default_handler cpython [] [] post_hello [''STRASSE'', ''text''] (boot seconds))))
     = Inr (PlainText [])"
  by code_simp

text \<open>Two calls of \<^verbatim>\<open>get_clipboard\<close>, one after the other, return the same object.\<close>

lemma get_clipboard_twice:
  "get_clipboard nm (snd (get_clipboard nm w))
     = (fst (get_clipboard nm w), snd (get_clipboard nm w))"
  by (rule get_clipboard_old) (rule get_clipboard_lookup)

subsection \<open>Generated names\<close>












end
